theory Spec2Isabelle
  imports Main
begin

section \<open>Routes, middlewares and the slice store\<close>

text \<open>
  A \<open>Route\<close> is the struct \<open>{Method, Path, Handler}\<close> that \<open>rest/server.go\<close> builds
  in \<open>WithMiddleware\<close> and \<open>WithPrefix\<close>. The handler type is a parameter: the
  functions of this file never call a handler, they only pass it to a middleware.
  A \<open>Middleware\<close> maps a handler to a handler.
\<close>

record 'h Route =
  Method :: string
  Path :: string
  Handler :: 'h

type_synonym 'h Middleware = "'h \<Rightarrow> 'h"

text \<open>
  \<open>WithMiddleware\<close> allocates a slice with \<open>make\<close> and writes it by index, so the
  slices live in an explicit store: a list of backing arrays, a slice being the index of
  its array. A slice is read as its whole array (offset and capacity play no role in the
  code below). \<open>make\<close> appends a fresh array, so the index it returns is never one that
  was in use.
\<close>

type_synonym 'h store = "'h Route list list"

type_synonym slice = nat

text \<open>The zero value of \<open>Route\<close>; \<open>nilH\<close> stands for the nil handler.\<close>

definition zeroRoute :: "'h \<Rightarrow> 'h Route" where
  "zeroRoute nilH = \<lparr>Method = [], Path = [], Handler = nilH\<rparr>"

text \<open>\<open>make([]Route, n)\<close>\<close>

definition make_routes :: "'h \<Rightarrow> nat \<Rightarrow> 'h store \<Rightarrow> slice \<times> 'h store" where
  "make_routes nilH n st = (length st, st @ [replicate n (zeroRoute nilH)])"

text \<open>
  The body of the loop of \<open>WithMiddleware\<close>:
  \<^verbatim>\<open>route := rs[i]; routes[i] = Route{Method: route.Method, Path: route.Path,
     Handler: middleware(route.Handler)}\<close>
\<close>

definition WithMiddleware_body ::
  "'h Middleware \<Rightarrow> slice \<Rightarrow> slice \<Rightarrow> nat \<Rightarrow> 'h store \<Rightarrow> 'h store" where
  "WithMiddleware_body middleware rs routes i st =
     (let route = st ! rs ! i
      in st[routes := (st ! routes)[i :=
           \<lparr>Method = Method route, Path = Path route,
            Handler = middleware (Handler route)\<rparr>]])"

text \<open>
  \<open>WithMiddleware(middleware, rs...)\<close>: \<open>for i := range rs\<close> runs the body for
  \<open>i = 0, ..., len(rs) - 1\<close>.
\<close>

definition WithMiddleware ::
  "'h \<Rightarrow> 'h Middleware \<Rightarrow> slice \<Rightarrow> 'h store \<Rightarrow> slice \<times> 'h store" where
  "WithMiddleware nilH middleware rs st =
     (let n = length (st ! rs);
          (routes, st1) = make_routes nilH n st;
          st2 = fold (WithMiddleware_body middleware rs routes) [0..<n] st1
      in (routes, st2))"

text \<open>
  \<open>WithMiddlewares(ms, rs...)\<close>:
  \<^verbatim>\<open>for i := len(ms) - 1; i >= 0; i-- { rs = WithMiddleware(ms[i], rs...) }; return rs\<close>
  The index runs over \<open>len(ms) - 1, ..., 0\<close>.
\<close>

definition WithMiddlewares ::
  "'h \<Rightarrow> 'h Middleware list \<Rightarrow> slice \<Rightarrow> 'h store \<Rightarrow> slice \<times> 'h store" where
  "WithMiddlewares nilH ms rs st =
     fold (\<lambda>i (rs, st). WithMiddleware nilH (ms ! i) rs st) (rev [0..<length ms]) (rs, st)"

text \<open>
  Vocabulary for the properties below. \<open>wrap_route mw r\<close> names the route literal of the loop body.
  A handler that runs on a world \<open>'w\<close> is a function \<open>'w \<Rightarrow> 'w\<close>; a middleware with a
  pre-phase and a post-phase runs \<open>pre\<close>, then the next handler, then \<open>post\<close>.
\<close>

definition wrap_route :: "'h Middleware \<Rightarrow> 'h Route \<Rightarrow> 'h Route" where
  "wrap_route mw r = \<lparr>Method = Method r, Path = Path r, Handler = mw (Handler r)\<rparr>"

definition phased :: "('w \<Rightarrow> 'w) \<Rightarrow> ('w \<Rightarrow> 'w) \<Rightarrow> ('w \<Rightarrow> 'w) Middleware" where
  "phased pre post next = (\<lambda>w. post (next (pre w)))"

definition log_event :: "string \<Rightarrow> string list \<Rightarrow> string list" where
  "log_event e w = w @ [e]"

section \<open>Panics and statements\<close>

text \<open>
  An error value of Go. \<open>http.ErrServerClosed\<close> is one fixed value; every other error is
  told apart by its message. \<open>nil\<close> is \<open>None\<close> of \<open>error option\<close>.
\<close>

datatype error = ErrServerClosed | Err string

text \<open>The value a \<open>panic\<close> carries: a string in \<open>validateSecret\<close>, an error in \<open>handleError\<close>.\<close>

datatype panic_value = PanicString string | PanicError error

text \<open>
  A statement runs on a state and either completes (\<open>None\<close>) or panics (\<open>Some v\<close>); in
  both cases it returns the state it leaves behind. \<open>block\<close> runs statements in order
  and stops at the first panic, so what is written after a panic is never executed.
\<close>

type_synonym 's stmt = "'s \<Rightarrow> panic_value option \<times> 's"

definition panic :: "panic_value \<Rightarrow> 's stmt" where
  "panic v s = (Some v, s)"

definition assign :: "('s \<Rightarrow> 's) \<Rightarrow> 's stmt" where
  "assign f s = (None, f s)"

fun block :: "'s stmt list \<Rightarrow> 's stmt" where
  "block [] s = (None, s)"
| "block (c # cs) s = (case c s of (None, s') \<Rightarrow> block cs s' | (Some v, s') \<Rightarrow> (Some v, s'))"

text \<open>\<open>validateSecret\<close>: \<open>len\<close> of a Go string counts bytes, as \<open>length\<close> of a \<open>string\<close>.\<close>

definition validateSecret :: "string \<Rightarrow> 's stmt" where
  "validateSecret secret =
     (if length secret < 8 then panic (PanicString ''secret's length can't be less than 8'')
      else block [])"

section \<open>The standard library's path.Join\<close>

text \<open>
  \<open>WithPrefix\<close> calls \<open>path.Join\<close> of the Go standard library. \<open>path_Join\<close> and
  \<open>path_Clean\<close> follow the library's code; its \<open>lazybuf\<close> is the byte list \<open>out\<close>
  (\<open>out.w\<close> is \<open>length out\<close>, \<open>out.append\<close> appends, \<open>out.index\<close> reads a position
  below the length the buffer had when the \<open>..\<close> case was entered).

  The \<open>..\<close> case backs up over the last element:
  \<^verbatim>\<open>out.w--; for out.w > dotdot && out.index(out.w) != '/' { out.w-- }\<close>
\<close>

function backtrack_loop :: "string \<Rightarrow> nat \<Rightarrow> nat \<Rightarrow> nat" where
  "backtrack_loop out dotdot w =
     (if w > dotdot \<and> out ! w \<noteq> CHR ''/'' then backtrack_loop out dotdot (w - 1) else w)"
  by pat_completeness auto
termination
  by (relation "measure (\<lambda>(out, dotdot, w). w)") auto

declare backtrack_loop.simps [simp del]

definition backtrack :: "string \<Rightarrow> nat \<Rightarrow> string" where
  "backtrack out dotdot = take (backtrack_loop out dotdot (length out - 1)) out"

text \<open>
  The main loop of \<open>path.Clean\<close>, \<open>for r < n { switch { ... } }\<close>, with the cases in the
  order of the source: an empty element, a \<open>.\<close> element, a \<open>..\<close> element (back up if
  possible, else append \<open>..\<close> when the path is not rooted), a real element (add a slash
  if needed, then copy up to the next slash).
\<close>

function Clean_loop :: "bool \<Rightarrow> string \<Rightarrow> nat \<Rightarrow> string \<Rightarrow> nat \<Rightarrow> string" where
  "Clean_loop rooted path r out dotdot =
     (if r < length path then
        (if path ! r = CHR ''/'' then
           Clean_loop rooted path (r + 1) out dotdot
         else if path ! r = CHR ''.'' \<and> (r + 1 = length path \<or> path ! (r + 1) = CHR ''/'') then
           Clean_loop rooted path (r + 1) out dotdot
         else if path ! r = CHR ''.'' \<and> path ! (r + 1) = CHR ''.''
                 \<and> (r + 2 = length path \<or> path ! (r + 2) = CHR ''/'') then
           (if length out > dotdot then
              Clean_loop rooted path (r + 2) (backtrack out dotdot) dotdot
            else if \<not> rooted then
              Clean_loop rooted path (r + 2)
                ((if length out > 0 then out @ ''/'' else out) @ ''..'')
                (length ((if length out > 0 then out @ ''/'' else out) @ ''..''))
            else Clean_loop rooted path (r + 2) out dotdot)
         else
           Clean_loop rooted path
             (r + length (takeWhile (\<lambda>c. c \<noteq> CHR ''/'') (drop r path)))
             ((if rooted \<and> length out \<noteq> 1 \<or> \<not> rooted \<and> length out \<noteq> 0
               then out @ ''/'' else out)
              @ takeWhile (\<lambda>c. c \<noteq> CHR ''/'') (drop r path))
             dotdot)
      else out)"
  by pat_completeness auto
termination
proof (relation "measure (\<lambda>(rooted, path, r, out, dotdot). length path - r)", goal_cases)
  case (7 rooted path r out dotdot)
  then have "drop r path = path ! r # drop (Suc r) path"
    by (simp add: Cons_nth_drop_Suc)
  with 7 show ?case by auto
qed auto

declare Clean_loop.simps [simp del]

text \<open>
  \<open>path.Clean\<close>: the empty path is \<open>.\<close>; a rooted path starts the buffer with the slash
  and \<open>r, dotdot = 1, 1\<close>; an empty result is \<open>.\<close>.
\<close>

definition path_Clean :: "string \<Rightarrow> string" where
  "path_Clean path =
     (if path = [] then ''.''
      else let rooted = (path ! 0 = CHR ''/'');
               out = (if rooted then Clean_loop rooted path 1 ''/'' 1
                      else Clean_loop rooted path 0 [] 0)
           in if length out = 0 then ''.'' else out)"

text \<open>
  \<open>path.Join\<close>: empty when all elements are empty; else the elements, the leading empty
  ones left out, joined with slashes, then cleaned.
\<close>

definition path_Join :: "string list \<Rightarrow> string" where
  "path_Join elem =
     (if sum_list (map length elem) = 0 then []
      else path_Clean
             (fold (\<lambda>e buf. if length buf > 0 \<or> e \<noteq> []
                            then (if length buf > 0 then buf @ ''/'' else buf) @ e
                            else buf) elem []))"




section \<open>Route options\<close>

text \<open>
  The settings that the route options write. Their declarations are not in
  \<open>rest/server.go\<close>; the fields are the ones the options assign: \<open>r.jwt.enabled\<close>,
  \<open>r.jwt.secret\<close>, \<open>r.jwt.prevSecret\<close>, \<open>r.signature.enabled\<close>, \<open>r.signature.Strict\<close>,
  \<open>r.signature.Expiry\<close>, \<open>r.signature.PrivateKeys\<close>, \<open>r.priority\<close>, \<open>r.routes\<close>. The two
  \<open>enabled\<close> fields are \<open>jwt_enabled\<close> and \<open>signature_enabled\<close> here, and the secrets
  carry the prefix too. \<open>signatureSetting\<close> embeds \<open>SignatureConf\<close>. \<open>Expiry\<close> is a
  duration (an integer count), \<open>PrivateKeys\<close> pairs key identifiers with key material.
\<close>

record jwtSetting =
  jwt_enabled :: bool
  jwt_secret :: string
  jwt_prevSecret :: string

record SignatureConf =
  Strict :: bool
  Expiry :: int
  PrivateKeys :: "(string \<times> string) list"

record signatureSetting = SignatureConf +
  signature_enabled :: bool

text \<open>
  In \<open>featuredRoutes\<close> the slice \<open>routes\<close> is its contents: the options only ever assign
  a whole new slice to the field.
\<close>

record 'h featuredRoutes =
  priority :: bool
  jwt :: jwtSetting
  signature :: signatureSetting
  routes :: "'h Route list"

text \<open>A \<open>RouteOption\<close> is a \<open>func(r *featuredRoutes)\<close>: a statement on \<open>featuredRoutes\<close>.\<close>

type_synonym 'h RouteOption = "'h featuredRoutes stmt"

definition WithJwt :: "string \<Rightarrow> 'h RouteOption" where
  "WithJwt secret = block
     [validateSecret secret,
      assign (\<lambda>r. r\<lparr>jwt := (jwt r)\<lparr>jwt_enabled := True\<rparr>\<rparr>),
      assign (\<lambda>r. r\<lparr>jwt := (jwt r)\<lparr>jwt_secret := secret\<rparr>\<rparr>)]"

definition WithJwtTransition :: "string \<Rightarrow> string \<Rightarrow> 'h RouteOption" where
  "WithJwtTransition secret prevSecret = block
     [validateSecret secret,
      assign (\<lambda>r. r\<lparr>jwt := (jwt r)\<lparr>jwt_enabled := True\<rparr>\<rparr>),
      assign (\<lambda>r. r\<lparr>jwt := (jwt r)\<lparr>jwt_secret := secret\<rparr>\<rparr>),
      assign (\<lambda>r. r\<lparr>jwt := (jwt r)\<lparr>jwt_prevSecret := prevSecret\<rparr>\<rparr>)]"

text \<open>
  \<open>WithPrefix\<close>: \<open>var routes []Route\<close>, one \<open>append\<close> for each route of \<open>r.routes\<close> in
  order, then \<open>r.routes = routes\<close>. The parameter \<open>group\<close> is \<open>grp\<close> here.
\<close>

definition WithPrefix :: "string \<Rightarrow> 'h RouteOption" where
  "WithPrefix grp = assign (\<lambda>r. r\<lparr>routes :=
     fold (\<lambda>rt rts. rts @ [\<lparr>Method = Method rt, Path = path_Join [grp, Path rt],
                              Handler = Handler rt\<rparr>])
       (routes r) []\<rparr>)"

definition WithPriority :: "'h RouteOption" where
  "WithPriority = assign (\<lambda>r. r\<lparr>priority := True\<rparr>)"

definition WithSignature :: "SignatureConf \<Rightarrow> 'h RouteOption" where
  "WithSignature conf = block
     [assign (\<lambda>r. r\<lparr>signature := (signature r)\<lparr>signature_enabled := True\<rparr>\<rparr>),
      assign (\<lambda>r. r\<lparr>signature := (signature r)\<lparr>Strict := Strict conf\<rparr>\<rparr>),
      assign (\<lambda>r. r\<lparr>signature := (signature r)\<lparr>Expiry := Expiry conf\<rparr>\<rparr>),
      assign (\<lambda>r. r\<lparr>signature := (signature r)\<lparr>PrivateKeys := PrivateKeys conf\<rparr>\<rparr>)]"

text \<open>
  \<open>Server.AddRoutes\<close> starts from \<open>featuredRoutes{routes: rs}\<close>, every other field zero,
  and runs the options in the order given: \<open>for _, opt := range opts { opt(&r) }\<close>.
\<close>

definition new_featuredRoutes :: "'h Route list \<Rightarrow> 'h featuredRoutes" where
  "new_featuredRoutes rs =
     \<lparr>priority = False,
      jwt = \<lparr>jwt_enabled = False, jwt_secret = [], jwt_prevSecret = []\<rparr>,
      signature = \<lparr>Strict = False, Expiry = 0, PrivateKeys = [], signature_enabled = False\<rparr>,
      routes = rs\<rparr>"


text \<open>
  The four kinds of option that commute with each other, as data, and the option each one
  stands for.
\<close>

datatype option_kind = KPrefix | KPriority | KJwt | KSignature

datatype route_opt = Prefix string | Priority | Jwt string | Signature SignatureConf

fun kind_of :: "route_opt \<Rightarrow> option_kind" where
  "kind_of (Prefix grp) = KPrefix"
| "kind_of Priority = KPriority"
| "kind_of (Jwt secret) = KJwt"
| "kind_of (Signature conf) = KSignature"

fun valid_opt :: "route_opt \<Rightarrow> bool" where
  "valid_opt (Jwt secret) = (length secret \<ge> 8)"
| "valid_opt opt = True"

fun option_of :: "route_opt \<Rightarrow> 'h RouteOption" where
  "option_of (Prefix grp) = WithPrefix grp"
| "option_of Priority = WithPriority"
| "option_of (Jwt secret) = WithJwt secret"
| "option_of (Signature conf) = WithSignature conf"

section \<open>The server and its run options\<close>

text \<open>
  \<open>runOptions\<close> holds the start strategy, a function from the engine to the error that
  starting returns. The engine type is a parameter \<open>'ng\<close>; the engine's \<open>Start\<close> and
  \<open>StartWithRouter\<close>, which are not in \<open>rest/server.go\<close>, are parameters of the
  definitions that mention them. A \<open>RunOption\<close> is a \<open>func(*Server)\<close>: it maps the
  server to the server it leaves behind.
\<close>

record 'ng runOptions =
  start :: "'ng \<Rightarrow> error option"

record 'ng Server =
  ngin :: 'ng
  opts :: "'ng runOptions"

type_synonym 'ng RunOption = "'ng Server \<Rightarrow> 'ng Server"

text \<open>
  \<open>NewServer\<close>: \<open>c.SetUp()\<close> may fail; else the server starts with the default strategy
  \<open>ng.Start()\<close> and the options run in the order given.
\<close>

definition NewServer ::
  "('c \<Rightarrow> error option) \<Rightarrow> ('c \<Rightarrow> 'ng) \<Rightarrow> ('ng \<Rightarrow> error option) \<Rightarrow>
   'c \<Rightarrow> 'ng RunOption list \<Rightarrow> error + 'ng Server" where
  "NewServer SetUp newEngine engine_Start c options =
     (case SetUp c of
        Some err \<Rightarrow> Inl err
      | None \<Rightarrow> Inr (fold (\<lambda>opt server. opt server) options
                       \<lparr>ngin = newEngine c,
                        opts = \<lparr>start = (\<lambda>ng. engine_Start ng)\<rparr>\<rparr>))"

text \<open>\<open>MustNewServer\<close>: \<open>log.Fatal(err)\<close> ends the process when \<open>NewServer\<close> fails.\<close>

datatype 'a must = LogFatal error | Returns 'a

definition MustNewServer ::
  "('c \<Rightarrow> error option) \<Rightarrow> ('c \<Rightarrow> 'ng) \<Rightarrow> ('ng \<Rightarrow> error option) \<Rightarrow>
   'c \<Rightarrow> 'ng RunOption list \<Rightarrow> 'ng Server must" where
  "MustNewServer SetUp newEngine engine_Start c options =
     (case NewServer SetUp newEngine engine_Start c options of
        Inl err \<Rightarrow> LogFatal err
      | Inr server \<Rightarrow> Returns server)"

text \<open>
  \<open>handleError\<close> and \<open>Server.Start\<close>. The state of these statements is the error log
  that \<open>logx.Error\<close> appends to.
\<close>

definition logx_Error :: "error \<Rightarrow> error list stmt" where
  "logx_Error err lg = (None, lg @ [err])"

definition handleError :: "error option \<Rightarrow> error list stmt" where
  "handleError err =
     (case err of
        None \<Rightarrow> block []
      | Some e \<Rightarrow> if e = ErrServerClosed then block []
                  else block [logx_Error e, panic (PanicError e)])"

definition Server_Start :: "'ng Server \<Rightarrow> error list stmt" where
  "Server_Start s = handleError (start (opts s) (ngin s))"

definition WithRouter :: "('ng \<Rightarrow> 'rt \<Rightarrow> error option) \<Rightarrow> 'rt \<Rightarrow> 'ng RunOption" where
  "WithRouter StartWithRouter router server =
     server\<lparr>opts := (opts server)\<lparr>start := (\<lambda>ng. StartWithRouter ng router)\<rparr>\<rparr>"

text \<open>
  Modelled from the spec: the engine's \<open>setTlsConfig\<close> is not in \<open>rest/server.go\<close>. The
  spec lists the TLS configuration among the values the engine keeps, set through
  \<open>SetTLSConfig(cfg)\<close>; the engine is a record with that field, open to further fields.
\<close>

record 'tls engine =
  tlsConfig :: 'tls

definition setTlsConfig :: "'tls \<Rightarrow> ('tls, 'z) engine_scheme \<Rightarrow> ('tls, 'z) engine_scheme" where
  "setTlsConfig cfg ng = ng\<lparr>tlsConfig := cfg\<rparr>"

definition WithTLSConfig :: "'tls \<Rightarrow> ('tls, 'z) engine_scheme RunOption" where
  "WithTLSConfig cfg srv = srv\<lparr>ngin := setTlsConfig cfg (ngin srv)\<rparr>"

text \<open>
  Modelled from the spec: the router package (\<open>router.NewRouter\<close>, \<open>SetNotFoundHandler\<close>,
  \<open>SetNotAllowedHandler\<close>) is not in \<open>rest/server.go\<close>. The spec names the two setters as
  what the router collaborator offers; a router is a record of the two handlers it may
  carry, a new router carries none, and each setter stores its handler.
\<close>

record 'hd Router =
  notFound :: "'hd option"
  notAllowed :: "'hd option"

definition NewRouter :: "'hd Router" where
  "NewRouter = \<lparr>notFound = None, notAllowed = None\<rparr>"

definition SetNotFoundHandler :: "'hd \<Rightarrow> 'hd Router \<Rightarrow> 'hd Router" where
  "SetNotFoundHandler handler rt = rt\<lparr>notFound := Some handler\<rparr>"

definition SetNotAllowedHandler :: "'hd \<Rightarrow> 'hd Router \<Rightarrow> 'hd Router" where
  "SetNotAllowedHandler handler rt = rt\<lparr>notAllowed := Some handler\<rparr>"

definition WithNotFoundHandler ::
  "('ng \<Rightarrow> 'hd Router \<Rightarrow> error option) \<Rightarrow> 'hd \<Rightarrow> 'ng RunOption" where
  "WithNotFoundHandler StartWithRouter handler =
     (let rt = SetNotFoundHandler handler NewRouter in WithRouter StartWithRouter rt)"

definition WithNotAllowedHandler ::
  "('ng \<Rightarrow> 'hd Router \<Rightarrow> error option) \<Rightarrow> 'hd \<Rightarrow> 'ng RunOption" where
  "WithNotAllowedHandler StartWithRouter handler =
     (let rt = SetNotAllowedHandler handler NewRouter in WithRouter StartWithRouter rt)"

section \<open>WithMiddleware and WithMiddlewares\<close>

lemma WithMiddleware_body_alt:
  "WithMiddleware_body mw rs dst i st
   = st[dst := (st ! dst)[i := wrap_route mw (st ! rs ! i)]]"
  by (simp add: WithMiddleware_body_def wrap_route_def Let_def)

lemma WithMiddleware_loop:
  assumes "rs < length st" "n = length (st ! rs)" "k \<le> n"
  shows "fold (WithMiddleware_body mw rs (length st)) [0..<k] (st @ [replicate n z])
         = st @ [map (wrap_route mw) (take k (st ! rs)) @ replicate (n - k) z]"
  using assms(3)
proof (induction k)
  case 0
  then show ?case by simp
next
  case (Suc k)
  then have k: "k < n" by simp
  have rd: "(st @ [xs]) ! rs = st ! rs" for xs
    using assms(1) by (simp add: nth_append)
  have "replicate (n - k) z = z # replicate (n - Suc k) z"
    using k by (metis Suc_diff_Suc replicate_Suc)
  then have upd: "(map (wrap_route mw) (take k (st ! rs)) @ replicate (n - k) z)[k := v]
        = map (wrap_route mw) (take k (st ! rs)) @ v # replicate (n - Suc k) z" for v
    using k assms(2) by (simp add: list_update_append)
  have tk: "take (Suc k) (st ! rs) = take k (st ! rs) @ [st ! rs ! k]"
    using k assms(2) by (simp add: take_Suc_conv_app_nth)
  from Suc show ?case
    by (simp add: WithMiddleware_body_alt rd upd tk)
qed

lemma WithMiddleware_eq:
  assumes "rs < length st"
  shows "WithMiddleware nilH mw rs st = (length st, st @ [map (wrap_route mw) (st ! rs)])"
  using WithMiddleware_loop [OF assms refl order_refl, of mw "zeroRoute nilH"]
  by (simp add: WithMiddleware_def make_routes_def)

lemma WithMiddlewares_Nil: "WithMiddlewares nilH [] rs st = (rs, st)"
  by (simp add: WithMiddlewares_def)

lemma WithMiddlewares_snoc:
  "WithMiddlewares nilH (ms @ [m]) rs st
   = (case WithMiddleware nilH m rs st of (rs1, st1) \<Rightarrow> WithMiddlewares nilH ms rs1 st1)"
proof -
  have "fold (\<lambda>i (rs, st). WithMiddleware nilH ((ms @ [m]) ! i) rs st) (rev [0..<length ms]) p
      = fold (\<lambda>i (rs, st). WithMiddleware nilH (ms ! i) rs st) (rev [0..<length ms]) p" for p
    by (rule fold_cong) (auto simp: nth_append)
  then show ?thesis
    by (simp add: WithMiddlewares_def split: prod.splits)
qed

lemma wrap_route_wrap_route:
  "wrap_route f (wrap_route g r) = wrap_route (\<lambda>h. f (g h)) r"
  by (simp add: wrap_route_def)

lemma wrap_route_id: "map (wrap_route (\<lambda>h. h)) (rs :: 'h Route list) = rs"
proof -
  have "wrap_route (\<lambda>h. h) r = r" for r :: "'h Route"
    by (cases r) (simp add: wrap_route_def)
  then show ?thesis by (simp add: map_idI)
qed

lemma WithMiddlewares_spec:
  assumes "rs < length st"
  shows "fst (WithMiddlewares nilH ms rs st) < length (snd (WithMiddlewares nilH ms rs st))
       \<and> take (length st) (snd (WithMiddlewares nilH ms rs st)) = st
       \<and> snd (WithMiddlewares nilH ms rs st) ! fst (WithMiddlewares nilH ms rs st)
         = map (wrap_route (\<lambda>h. foldr (\<lambda>m h. m h) ms h)) (st ! rs)"
  using assms
proof (induction ms arbitrary: rs st rule: rev_induct)
  case Nil
  then show ?case
    by (simp add: WithMiddlewares_Nil wrap_route_id)
next
  case (snoc m ms)
  let ?st1 = "st @ [map (wrap_route m) (st ! rs)]"
  let ?res = "WithMiddlewares nilH ms (length st) ?st1"
  have step: "WithMiddlewares nilH (ms @ [m]) rs st = ?res"
    by (simp add: WithMiddlewares_snoc WithMiddleware_eq [OF snoc.prems])
  have ih: "fst ?res < length (snd ?res)
       \<and> take (length ?st1) (snd ?res) = ?st1
       \<and> snd ?res ! fst ?res
         = map (wrap_route (\<lambda>h. foldr (\<lambda>m h. m h) ms h)) (?st1 ! length st)"
    by (rule snoc.IH) simp
  have "take (length st) (take (length ?st1) (snd ?res)) = take (length st) ?st1"
    using ih by simp
  then have frame: "take (length st) (snd ?res) = st"
    by simp
  show ?case
    using ih frame by (simp add: step wrap_route_wrap_route)
qed

lemma foldr_phased:
  "foldr (\<lambda>m h. m h) (map (\<lambda>(pre, post). phased pre post) pps) h w
   = foldr snd pps (h (fold fst pps w))"
  by (induction pps arbitrary: w) (auto simp: phased_def)

text \<open>
  Claim C1. \<open>WithMiddlewares(ms, rs...)\<close> returns routes with the methods and paths of
  \<open>rs\<close> whose handlers are \<open>ms[0](ms[1](... (ms[n-1](h))))\<close>: the first middleware is the
  outermost wrapper. When every middleware has a pre-phase and a post-phase, invoking a
  composed handler on a world \<open>w\<close> runs the pre-phases in the order of the sequence
  (\<open>fold fst pps\<close>), then the original handler, then the post-phases in reverse order
  (\<open>foldr snd pps\<close> applies the last post-phase first).
\<close>

theorem WithMiddlewares_first_is_outermost:
  assumes "rs < length st"
  shows "map Method (snd (WithMiddlewares nilH ms rs st) ! fst (WithMiddlewares nilH ms rs st))
           = map Method (st ! rs)
       \<and> map Path (snd (WithMiddlewares nilH ms rs st) ! fst (WithMiddlewares nilH ms rs st))
           = map Path (st ! rs)
       \<and> map Handler (snd (WithMiddlewares nilH ms rs st) ! fst (WithMiddlewares nilH ms rs st))
           = map (\<lambda>r. foldr (\<lambda>m h. m h) ms (Handler r)) (st ! rs)
       \<and> map (\<lambda>r. Handler r w)
           (snd (WithMiddlewares nilH' (map (\<lambda>(pre, post). phased pre post) pps) rs st)
            ! fst (WithMiddlewares nilH' (map (\<lambda>(pre, post). phased pre post) pps) rs st))
           = map (\<lambda>r. foldr snd pps (Handler r (fold fst pps w))) (st ! rs)"
  by (simp add: WithMiddlewares_spec [OF assms] wrap_route_def foldr_phased comp_def)

theorem WithMiddlewares_first_is_outermost_witness:
  "(0::nat) < length [[\<lparr>Method = ''GET'', Path = ''/users'', Handler = log_event ''handler''\<rparr>]]
   \<and> map (\<lambda>r. Handler r [])
       (snd (WithMiddlewares id
              (map (\<lambda>(pre, post). phased pre post)
                 [(log_event ''m1'', log_event ''m1-post''),
                  (log_event ''m2'', log_event ''m2-post''),
                  (log_event ''m3'', log_event ''m3-post'')])
              0 [[\<lparr>Method = ''GET'', Path = ''/users'', Handler = log_event ''handler''\<rparr>]])
        ! fst (WithMiddlewares id
              (map (\<lambda>(pre, post). phased pre post)
                 [(log_event ''m1'', log_event ''m1-post''),
                  (log_event ''m2'', log_event ''m2-post''),
                  (log_event ''m3'', log_event ''m3-post'')])
              0 [[\<lparr>Method = ''GET'', Path = ''/users'', Handler = log_event ''handler''\<rparr>]]))
     = [[''m1'', ''m2'', ''m3'', ''handler'', ''m3-post'', ''m2-post'', ''m1-post'']]"
  using WithMiddlewares_first_is_outermost
    [of 0 "[[\<lparr>Method = ''GET'', Path = ''/users'', Handler = log_event ''handler''\<rparr>]]"
        id "[]" "[]" id
        "[(log_event ''m1'', log_event ''m1-post''),
          (log_event ''m2'', log_event ''m2-post''),
          (log_event ''m3'', log_event ''m3-post'')]"]
  by (simp add: log_event_def)

text \<open>
  Claim C8. \<open>WithMiddleware(mw, rs...)\<close> returns a slice that is new (its array was not in
  the store before), of the length of \<open>rs\<close>, whose route \<open>i\<close> has the method and path of
  \<open>rs[i]\<close> and the handler \<open>mw(rs[i].Handler)\<close>; every array that was in the store before
  the call, the one of \<open>rs\<close> among them, is unchanged.
\<close>

theorem WithMiddleware_new_routes:
  assumes "rs < length st"
  shows "fst (WithMiddleware nilH mw rs st) = length st
       \<and> take (length st) (snd (WithMiddleware nilH mw rs st)) = st
       \<and> snd (WithMiddleware nilH mw rs st) ! rs = st ! rs
       \<and> length (snd (WithMiddleware nilH mw rs st) ! fst (WithMiddleware nilH mw rs st))
           = length (st ! rs)
       \<and> (\<forall>i < length (st ! rs).
            Method (snd (WithMiddleware nilH mw rs st) ! fst (WithMiddleware nilH mw rs st) ! i)
              = Method (st ! rs ! i)
          \<and> Path (snd (WithMiddleware nilH mw rs st) ! fst (WithMiddleware nilH mw rs st) ! i)
              = Path (st ! rs ! i)
          \<and> Handler (snd (WithMiddleware nilH mw rs st) ! fst (WithMiddleware nilH mw rs st) ! i)
              = mw (Handler (st ! rs ! i)))"
  using assms by (simp add: WithMiddleware_eq wrap_route_def nth_append)

theorem WithMiddleware_new_routes_witness:
  "(0::nat) < length [[\<lparr>Method = ''GET'', Path = ''/users'', Handler = (5::nat)\<rparr>,
                       \<lparr>Method = ''POST'', Path = ''/items'', Handler = 7\<rparr>]]
   \<and> WithMiddleware 0 Suc 0
        [[\<lparr>Method = ''GET'', Path = ''/users'', Handler = (5::nat)\<rparr>,
          \<lparr>Method = ''POST'', Path = ''/items'', Handler = 7\<rparr>]]
     = (1, [[\<lparr>Method = ''GET'', Path = ''/users'', Handler = 5\<rparr>,
             \<lparr>Method = ''POST'', Path = ''/items'', Handler = 7\<rparr>],
            [\<lparr>Method = ''GET'', Path = ''/users'', Handler = 6\<rparr>,
             \<lparr>Method = ''POST'', Path = ''/items'', Handler = 8\<rparr>]])"
  using WithMiddleware_new_routes
    [of 0 "[[\<lparr>Method = ''GET'', Path = ''/users'', Handler = (5::nat)\<rparr>,
             \<lparr>Method = ''POST'', Path = ''/items'', Handler = 7\<rparr>]]" 0 Suc]
  by (simp add: WithMiddleware_def make_routes_def WithMiddleware_body_def zeroRoute_def
      upt_rec)

text \<open>
  Claim C9. With an empty middleware sequence the loop of \<open>WithMiddlewares\<close> does not run:
  the call returns the slice \<open>rs\<close> it was given and leaves the store as it was, so the
  routes and their handlers are those of the input.
\<close>

theorem WithMiddlewares_empty:
  "WithMiddlewares nilH [] rs st = (rs, st)
   \<and> snd (WithMiddlewares nilH [] rs st) ! fst (WithMiddlewares nilH [] rs st) = st ! rs"
  by (simp add: WithMiddlewares_def)

section \<open>Route options: secrets\<close>

text \<open>
  Claim C2. For a secret shorter than 8 bytes the option \<open>WithJwt(secret)\<close> panics with
  the message of \<open>validateSecret\<close> and leaves the \<open>featuredRoutes\<close> as they were; for a
  secret of at least 8 bytes it completes, and the result is the input with \<open>jwt.enabled\<close>
  set to true and \<open>jwt.secret\<close> set to the secret.
\<close>

theorem WithJwt_validates_secret:
  "(length secret < 8 \<longrightarrow>
      WithJwt secret r = (Some (PanicString ''secret's length can't be less than 8''), r))
   \<and> (length secret \<ge> 8 \<longrightarrow>
      WithJwt secret r = (None, r\<lparr>jwt := (jwt r)\<lparr>jwt_enabled := True, jwt_secret := secret\<rparr>\<rparr>))"
  by (simp add: WithJwt_def validateSecret_def panic_def assign_def)

theorem WithJwt_validates_secret_witness:
  "length ''short'' < 8
   \<and> WithJwt ''short'' (new_featuredRoutes ([] :: unit Route list))
       = (Some (PanicString ''secret's length can't be less than 8''), new_featuredRoutes [])
   \<and> length ''12345678'' \<ge> 8
   \<and> WithJwt ''12345678'' (new_featuredRoutes ([] :: unit Route list))
       = (None, \<lparr>priority = False,
                 jwt = \<lparr>jwt_enabled = True, jwt_secret = ''12345678'', jwt_prevSecret = []\<rparr>,
                 signature = \<lparr>Strict = False, Expiry = 0, PrivateKeys = [],
                              signature_enabled = False\<rparr>,
                 routes = []\<rparr>)"
  using WithJwt_validates_secret [of "''short''" "new_featuredRoutes ([] :: unit Route list)"]
    WithJwt_validates_secret [of "''12345678''" "new_featuredRoutes ([] :: unit Route list)"]
  by (simp add: new_featuredRoutes_def)

text \<open>
  Claim C3. \<open>WithJwtTransition(secret, prevSecret)\<close> checks the length of \<open>secret\<close> only:
  with a secret of at least 8 bytes it completes whatever the length of \<open>prevSecret\<close>, and
  sets \<open>jwt.enabled\<close> to true, \<open>jwt.secret\<close> to \<open>secret\<close> and \<open>jwt.prevSecret\<close> to
  \<open>prevSecret\<close>; with a shorter secret it panics and leaves the \<open>featuredRoutes\<close> as they
  were. The example is \<open>WithJwtTransition("longenough1", "x")\<close>.
\<close>

theorem WithJwtTransition_checks_secret_only:
  "(length secret \<ge> 8 \<longrightarrow>
      WithJwtTransition secret prevSecret r
        = (None, r\<lparr>jwt := \<lparr>jwt_enabled = True, jwt_secret = secret,
                            jwt_prevSecret = prevSecret\<rparr>\<rparr>))
   \<and> (length secret < 8 \<longrightarrow>
      WithJwtTransition secret prevSecret r
        = (Some (PanicString ''secret's length can't be less than 8''), r))"
  by (simp add: WithJwtTransition_def validateSecret_def panic_def assign_def)

theorem WithJwtTransition_checks_secret_only_witness:
  "length ''longenough1'' \<ge> 8 \<and> length ''x'' < 8
   \<and> WithJwtTransition ''longenough1'' ''x'' (new_featuredRoutes ([] :: unit Route list))
       = (None, \<lparr>priority = False,
                 jwt = \<lparr>jwt_enabled = True, jwt_secret = ''longenough1'', jwt_prevSecret = ''x''\<rparr>,
                 signature = \<lparr>Strict = False, Expiry = 0, PrivateKeys = [],
                              signature_enabled = False\<rparr>,
                 routes = []\<rparr>)
   \<and> WithJwtTransition ''x'' ''longenough1'' (new_featuredRoutes ([] :: unit Route list))
       = (Some (PanicString ''secret's length can't be less than 8''), new_featuredRoutes [])"
  using WithJwtTransition_checks_secret_only
      [of "''longenough1''" "''x''" "new_featuredRoutes ([] :: unit Route list)"]
    WithJwtTransition_checks_secret_only
      [of "''x''" "''longenough1''" "new_featuredRoutes ([] :: unit Route list)"]
  by (simp add: new_featuredRoutes_def)

section \<open>path.Join and WithPrefix\<close>

lemma WithPrefix_eq:
  "WithPrefix grp r =
     (None, r\<lparr>routes := map (\<lambda>rt. \<lparr>Method = Method rt, Path = path_Join [grp, Path rt],
                                    Handler = Handler rt\<rparr>) (routes r)\<rparr>)"
proof -
  have "fold (\<lambda>rt rts. rts @ [f rt]) xs acc = acc @ map f xs" for f :: "'a Route \<Rightarrow> 'a Route" and xs acc
    by (induction xs arbitrary: acc) auto
  then show ?thesis
    by (simp add: WithPrefix_def assign_def)
qed















lemma path_Join_root: "path_Join [''/'', ''/''] = ''/''"
  by code_simp



section \<open>Route options commute\<close>

text \<open>
  Claim C6. Two route options of different kinds among \<open>WithPrefix\<close>, \<open>WithPriority\<close>,
  \<open>WithJwt\<close> (with a secret of at least 8 bytes) and \<open>WithSignature\<close> give the same
  \<open>featuredRoutes\<close> in either order, from any starting \<open>featuredRoutes\<close>, and neither
  order panics.
\<close>

theorem route_options_commute:
  assumes "kind_of a \<noteq> kind_of b" "valid_opt a" "valid_opt b"
  shows "block [option_of a, option_of b] r = block [option_of b, option_of a] r
       \<and> fst (block [option_of a, option_of b] r) = None"
  using assms
  by (cases a; cases b)
     (simp_all add: WithPrefix_eq WithPriority_def WithJwt_def WithSignature_def
        validateSecret_def assign_def)

theorem route_options_commute_witness:
  "kind_of (Prefix ''/api'') \<noteq> kind_of (Jwt ''longenough1'')
   \<and> valid_opt (Prefix ''/api'') \<and> valid_opt (Jwt ''longenough1'')
   \<and> block [option_of (Prefix ''/api''), option_of (Jwt ''longenough1'')]
        (new_featuredRoutes [\<lparr>Method = ''GET'', Path = ''/users'', Handler = ()\<rparr>])
     = block [option_of (Jwt ''longenough1''), option_of (Prefix ''/api'')]
        (new_featuredRoutes [\<lparr>Method = ''GET'', Path = ''/users'', Handler = ()\<rparr>])"
  using route_options_commute [of "Prefix ''/api''" "Jwt ''longenough1''"
      "new_featuredRoutes [\<lparr>Method = ''GET'', Path = ''/users'', Handler = ()\<rparr>]"]
  by simp

section \<open>Starting the server\<close>

text \<open>
  Claim C5. \<open>Server.Start\<close> hands the result of the start strategy to \<open>handleError\<close>.
  When the strategy returns nil or \<open>http.ErrServerClosed\<close>, nothing is logged and
  nothing panics; for every other error, the error is logged and the call panics with it.
\<close>

theorem Start_handles_errors:
  "(start (opts s) (ngin s) = None \<or> start (opts s) (ngin s) = Some ErrServerClosed
      \<longrightarrow> Server_Start s lg = (None, lg))
   \<and> (\<forall>e. start (opts s) (ngin s) = Some e \<and> e \<noteq> ErrServerClosed
      \<longrightarrow> Server_Start s lg = (Some (PanicError e), lg @ [e]))"
  by (auto simp: Server_Start_def handleError_def logx_Error_def panic_def)

theorem Start_handles_errors_witness:
  "Server_Start \<lparr>ngin = (), opts = \<lparr>start = (\<lambda>ng. Some ErrServerClosed)\<rparr>\<rparr> [] = (None, [])
   \<and> Server_Start \<lparr>ngin = (), opts = \<lparr>start = (\<lambda>ng. None)\<rparr>\<rparr> [] = (None, [])
   \<and> Server_Start \<lparr>ngin = (), opts = \<lparr>start = (\<lambda>ng. Some (Err ''listen tcp: address already in use''))\<rparr>\<rparr> []
       = (Some (PanicError (Err ''listen tcp: address already in use'')),
          [Err ''listen tcp: address already in use''])"
  using Start_handles_errors [of "\<lparr>ngin = (), opts = \<lparr>start = (\<lambda>ng. Some ErrServerClosed)\<rparr>\<rparr>" "[]"]
    Start_handles_errors [of "\<lparr>ngin = (), opts = \<lparr>start = (\<lambda>ng. None)\<rparr>\<rparr>" "[]"]
    Start_handles_errors [of "\<lparr>ngin = (), opts = \<lparr>start = (\<lambda>ng. Some (Err ''listen tcp: address already in use''))\<rparr>\<rparr>" "[]"]
  by simp

section \<open>Run options\<close>

text \<open>
  Claim C7. \<open>NewServer\<close> runs the options in the order given: the options \<open>xs @ ys\<close>
  give what \<open>ys\<close> makes of the server that \<open>xs\<close> gave. A later option overwrites what an
  earlier one wrote to the same field: after two \<open>WithTLSConfig\<close> options the server is
  the one that the later option alone gives, and the engine holds the later configuration;
  after two \<open>WithRouter\<close> options the server is the one that the later option alone gives,
  and the start strategy calls \<open>StartWithRouter\<close> with the later router. The same holds
  for \<open>MustNewServer\<close>, which ends the process with the error of \<open>SetUp\<close> when
  \<open>SetUp\<close> fails and otherwise returns the server that \<open>NewServer\<close> builds: it runs
  the options in the order given, holds the later TLS configuration, and starts with the
  later router. With no options both start from the new engine and the default strategy
  \<open>ng.Start()\<close>.
\<close>

theorem RunOptions_last_writer_wins:
  "NewServer SetUp newEngine engine_Start c (xs @ ys)
     = (case NewServer SetUp newEngine engine_Start c xs of
          Inl err \<Rightarrow> Inl err
        | Inr server \<Rightarrow> Inr (fold (\<lambda>opt server. opt server) ys server))
   \<and> NewServer SetUp newEngine engine_Start c (xs @ [WithTLSConfig cfg1, WithTLSConfig cfg2])
     = NewServer SetUp newEngine engine_Start c (xs @ [WithTLSConfig cfg2])
   \<and> map_sum id (\<lambda>server. tlsConfig (ngin server))
       (NewServer SetUp newEngine engine_Start c (xs @ [WithTLSConfig cfg1, WithTLSConfig cfg2]))
     = (case SetUp c of Some err \<Rightarrow> Inl err | None \<Rightarrow> Inr cfg2)
   \<and> NewServer SetUp newEngine' engine_Start' c
       (zs @ [WithRouter StartWithRouter router1, WithRouter StartWithRouter router2])
     = NewServer SetUp newEngine' engine_Start' c (zs @ [WithRouter StartWithRouter router2])
   \<and> map_sum id (\<lambda>server. start (opts server))
       (NewServer SetUp newEngine' engine_Start' c
          (zs @ [WithRouter StartWithRouter router1, WithRouter StartWithRouter router2]))
     = (case SetUp c of Some err \<Rightarrow> Inl err
        | None \<Rightarrow> Inr (\<lambda>ng. StartWithRouter ng router2))
   \<and> MustNewServer SetUp newEngine engine_Start c (xs @ [WithTLSConfig cfg1, WithTLSConfig cfg2])
     = MustNewServer SetUp newEngine engine_Start c (xs @ [WithTLSConfig cfg2])
   \<and> MustNewServer SetUp newEngine' engine_Start' c
       (zs @ [WithRouter StartWithRouter router1, WithRouter StartWithRouter router2])
     = MustNewServer SetUp newEngine' engine_Start' c (zs @ [WithRouter StartWithRouter router2])
   \<and> MustNewServer SetUp newEngine engine_Start c (xs @ ys)
     = (case MustNewServer SetUp newEngine engine_Start c xs of
          LogFatal err \<Rightarrow> LogFatal err
        | Returns server \<Rightarrow> Returns (fold (\<lambda>opt server. opt server) ys server))
   \<and> map_must (\<lambda>server. tlsConfig (ngin server))
       (MustNewServer SetUp newEngine engine_Start c
          (xs @ [WithTLSConfig cfg1, WithTLSConfig cfg2]))
     = (case SetUp c of Some err \<Rightarrow> LogFatal err | None \<Rightarrow> Returns cfg2)
   \<and> map_must (\<lambda>server. start (opts server))
       (MustNewServer SetUp newEngine' engine_Start' c
          (zs @ [WithRouter StartWithRouter router1, WithRouter StartWithRouter router2]))
     = (case SetUp c of Some err \<Rightarrow> LogFatal err
        | None \<Rightarrow> Returns (\<lambda>ng. StartWithRouter ng router2))
   \<and> NewServer SetUp newEngine engine_Start c []
     = (case SetUp c of Some err \<Rightarrow> Inl err
        | None \<Rightarrow> Inr \<lparr>ngin = newEngine c, opts = \<lparr>start = (\<lambda>ng. engine_Start ng)\<rparr>\<rparr>)
   \<and> MustNewServer SetUp newEngine engine_Start c []
     = (case SetUp c of Some err \<Rightarrow> LogFatal err
        | None \<Rightarrow> Returns \<lparr>ngin = newEngine c, opts = \<lparr>start = (\<lambda>ng. engine_Start ng)\<rparr>\<rparr>)"
  by (simp add: NewServer_def MustNewServer_def WithTLSConfig_def setTlsConfig_def
      WithRouter_def split: option.splits)

theorem RunOptions_last_writer_wins_witness:
  "map_sum id (\<lambda>server. tlsConfig (ngin server))
     (NewServer (\<lambda>c. None) (\<lambda>c. \<lparr>tlsConfig = c\<rparr>) (\<lambda>ng. None) ''default''
        [WithTLSConfig ''first'', WithTLSConfig ''second''])
     = Inr ''second''
   \<and> map_sum id (\<lambda>server. start (opts server))
     (NewServer (\<lambda>c. None) (\<lambda>c. \<lparr>tlsConfig = c\<rparr>) (\<lambda>ng. None) ''default''
        [WithRouter (\<lambda>ng router. Some (Err router)) ''router1'',
         WithRouter (\<lambda>ng router. Some (Err router)) ''router2''])
     = Inr (\<lambda>ng. Some (Err ''router2''))
   \<and> map_must (\<lambda>server. tlsConfig (ngin server))
     (MustNewServer (\<lambda>c. None) (\<lambda>c. \<lparr>tlsConfig = c\<rparr>) (\<lambda>ng. None) ''default''
        [WithTLSConfig ''first'', WithTLSConfig ''second''])
     = Returns ''second''
   \<and> map_must (\<lambda>server. start (opts server))
     (MustNewServer (\<lambda>c. None) (\<lambda>c. \<lparr>tlsConfig = c\<rparr>) (\<lambda>ng. None) ''default''
        [WithRouter (\<lambda>ng router. Some (Err router)) ''router1'',
         WithRouter (\<lambda>ng router. Some (Err router)) ''router2''])
     = Returns (\<lambda>ng. Some (Err ''router2''))
   \<and> MustNewServer (\<lambda>c. Some (Err ''bad config'')) (\<lambda>c. \<lparr>tlsConfig = c\<rparr>) (\<lambda>ng. None)
       ''default'' []
     = LogFatal (Err ''bad config'')"
proof -
  note ok = RunOptions_last_writer_wins
    [where SetUp = "\<lambda>c. None" and newEngine = "\<lambda>c. \<lparr>tlsConfig = c\<rparr>"
       and engine_Start = "\<lambda>ng. None" and c = "''default''" and xs = "[]"
       and ?cfg1.0 = "''first''" and ?cfg2.0 = "''second''"
       and newEngine' = "\<lambda>c. \<lparr>tlsConfig = c\<rparr>" and engine_Start' = "\<lambda>ng. None"
       and zs = "[]" and StartWithRouter = "\<lambda>ng router. Some (Err router)"
       and ys = "[]"
       and ?router1.0 = "''router1''" and ?router2.0 = "''router2''"]
  note bad = RunOptions_last_writer_wins
    [where SetUp = "\<lambda>c. Some (Err ''bad config'')" and newEngine = "\<lambda>c. \<lparr>tlsConfig = c\<rparr>"
       and engine_Start = "\<lambda>ng. None" and c = "''default''" and xs = "[]"
       and ?cfg1.0 = "''first''" and ?cfg2.0 = "''second''"
       and newEngine' = "\<lambda>c. \<lparr>tlsConfig = c\<rparr>" and engine_Start' = "\<lambda>ng. None"
       and zs = "[]" and StartWithRouter = "\<lambda>ng router. Some (Err router)"
       and ys = "[]"
       and ?router1.0 = "''router1''" and ?router2.0 = "''router2''"]
  have "map_sum id (\<lambda>server. tlsConfig (ngin server))
     (NewServer (\<lambda>c. None) (\<lambda>c. \<lparr>tlsConfig = c\<rparr>) (\<lambda>ng. None) ''default''
        [WithTLSConfig ''first'', WithTLSConfig ''second''])
     = Inr ''second''"
    using ok [THEN conjunct2, THEN conjunct2, THEN conjunct1] by simp
  moreover have "map_sum id (\<lambda>server. start (opts server))
     (NewServer (\<lambda>c. None) (\<lambda>c. \<lparr>tlsConfig = c\<rparr>) (\<lambda>ng. None) ''default''
        [WithRouter (\<lambda>ng router. Some (Err router)) ''router1'',
         WithRouter (\<lambda>ng router. Some (Err router)) ''router2''])
     = Inr (\<lambda>ng. Some (Err ''router2''))"
    using ok [THEN conjunct2, THEN conjunct2, THEN conjunct2, THEN conjunct2, THEN conjunct1] by simp
  moreover have "map_must (\<lambda>server. tlsConfig (ngin server))
     (MustNewServer (\<lambda>c. None) (\<lambda>c. \<lparr>tlsConfig = c\<rparr>) (\<lambda>ng. None) ''default''
        [WithTLSConfig ''first'', WithTLSConfig ''second''])
     = Returns ''second''"
    using ok [THEN conjunct2, THEN conjunct2, THEN conjunct2, THEN conjunct2, THEN conjunct2, THEN conjunct2, THEN conjunct2, THEN conjunct2, THEN conjunct1] by simp
  moreover have "map_must (\<lambda>server. start (opts server))
     (MustNewServer (\<lambda>c. None) (\<lambda>c. \<lparr>tlsConfig = c\<rparr>) (\<lambda>ng. None) ''default''
        [WithRouter (\<lambda>ng router. Some (Err router)) ''router1'',
         WithRouter (\<lambda>ng router. Some (Err router)) ''router2''])
     = Returns (\<lambda>ng. Some (Err ''router2''))"
    using ok [THEN conjunct2, THEN conjunct2, THEN conjunct2, THEN conjunct2, THEN conjunct2, THEN conjunct2, THEN conjunct2, THEN conjunct2, THEN conjunct2, THEN conjunct1] by simp
  moreover have "MustNewServer (\<lambda>c. Some (Err ''bad config'')) (\<lambda>c. \<lparr>tlsConfig = c\<rparr>)
       (\<lambda>ng. None) ''default'' []
     = LogFatal (Err ''bad config'')"
    using bad [THEN conjunct2, THEN conjunct2, THEN conjunct2, THEN conjunct2, THEN conjunct2, THEN conjunct2, THEN conjunct2, THEN conjunct2, THEN conjunct2, THEN conjunct2, THEN conjunct2] by simp
  ultimately show ?thesis by blast
qed

text \<open>
  Claim C10. \<open>WithNotFoundHandler\<close> and \<open>WithNotAllowedHandler\<close> are each \<open>WithRouter\<close> of
  a new router that carries the one handler. Applied to one server, the later option
  replaces the start strategy of the earlier: the router that \<open>Server.Start\<close> passes to
  \<open>StartWithRouter\<close> carries the handler of the later option and not the other one.
\<close>

theorem fallback_handlers_do_not_combine:
  "WithNotFoundHandler StartWithRouter h = WithRouter StartWithRouter \<lparr>notFound = Some h, notAllowed = None\<rparr>
   \<and> WithNotAllowedHandler StartWithRouter h = WithRouter StartWithRouter \<lparr>notFound = None, notAllowed = Some h\<rparr>
   \<and> start (opts (WithNotAllowedHandler StartWithRouter h2 (WithNotFoundHandler StartWithRouter h1 s)))
     = (\<lambda>ng. StartWithRouter ng \<lparr>notFound = None, notAllowed = Some h2\<rparr>)
   \<and> start (opts (WithNotFoundHandler StartWithRouter h2 (WithNotAllowedHandler StartWithRouter h1 s)))
     = (\<lambda>ng. StartWithRouter ng \<lparr>notFound = Some h2, notAllowed = None\<rparr>)
   \<and> Server_Start (WithNotAllowedHandler StartWithRouter h2 (WithNotFoundHandler StartWithRouter h1 s)) lg
     = handleError (StartWithRouter (ngin s) \<lparr>notFound = None, notAllowed = Some h2\<rparr>) lg
   \<and> Server_Start (WithNotFoundHandler StartWithRouter h2 (WithNotAllowedHandler StartWithRouter h1 s)) lg
     = handleError (StartWithRouter (ngin s) \<lparr>notFound = Some h2, notAllowed = None\<rparr>) lg"
  by (simp add: WithNotFoundHandler_def WithNotAllowedHandler_def WithRouter_def NewRouter_def
      SetNotFoundHandler_def SetNotAllowedHandler_def Server_Start_def fun_eq_iff)

theorem fallback_handlers_do_not_combine_witness:
  "Server_Start
     (WithNotAllowedHandler
        (\<lambda>ng rt. case notFound rt of None \<Rightarrow> None | Some h \<Rightarrow> Some (Err h)) ''na''
        (WithNotFoundHandler
           (\<lambda>ng rt. case notFound rt of None \<Rightarrow> None | Some h \<Rightarrow> Some (Err h)) ''nf''
           \<lparr>ngin = (), opts = \<lparr>start = (\<lambda>ng. None)\<rparr>\<rparr>)) []
     = (None, [])
   \<and> Server_Start
     (WithNotFoundHandler
        (\<lambda>ng rt. case notFound rt of None \<Rightarrow> None | Some h \<Rightarrow> Some (Err h)) ''nf''
        (WithNotAllowedHandler
           (\<lambda>ng rt. case notFound rt of None \<Rightarrow> None | Some h \<Rightarrow> Some (Err h)) ''na''
           \<lparr>ngin = (), opts = \<lparr>start = (\<lambda>ng. None)\<rparr>\<rparr>)) []
     = (Some (PanicError (Err ''nf'')), [Err ''nf''])"
  using fallback_handlers_do_not_combine
    [where StartWithRouter = "\<lambda>ng rt. case notFound rt of None \<Rightarrow> None | Some h \<Rightarrow> Some (Err h)"
       and ?h1.0 = "''nf''" and ?h2.0 = "''na''"
       and s = "\<lparr>ngin = (), opts = \<lparr>start = (\<lambda>ng. None)\<rparr>\<rparr>" and lg = "[]"
       and h = "''nf''"]
    fallback_handlers_do_not_combine
    [where StartWithRouter = "\<lambda>ng rt. case notFound rt of None \<Rightarrow> None | Some h \<Rightarrow> Some (Err h)"
       and ?h1.0 = "''na''" and ?h2.0 = "''nf''"
       and s = "\<lparr>ngin = (), opts = \<lparr>start = (\<lambda>ng. None)\<rparr>\<rparr>" and lg = "[]"
       and h = "''nf''"]
  by (simp add: handleError_def logx_Error_def panic_def WithNotFoundHandler_def
      WithNotAllowedHandler_def NewRouter_def SetNotFoundHandler_def SetNotAllowedHandler_def)

end
